theory Spec2Isabelle
  imports Complex_Main "HOL-Library.Word"
begin

unbundle bit_operations_syntax

section \<open>JavaScript values and strings\<close>

text \<open>
  The SDK is TypeScript. A JavaScript string is modelled as a \<^typ>\<open>string\<close> whose
  characters are the code units below 256; a JavaScript number as a \<^typ>\<open>real\<close>
  (the value \<open>NaN\<close> and the infinities have no counterpart); an optional property
  of an interface as an \<^typ>\<open>'a option\<close>, \<open>None\<close> standing for \<open>undefined\<close>.
  Values whose TypeScript type is \<open>unknown\<close> (a parsed JSON reply, an argument that
  a test passes against its declared type) are values of \<open>jsval\<close>.
\<close>

datatype jsval =
    JUndefined
  | JNull
  | JBool bool
  | JNum real
  | JStr string
  | JArr "jsval list"
  | JObj "(string \<times> jsval) list"

text \<open>Truthiness, as \<open>!v\<close>, \<open>v || d\<close> and \<open>if (v)\<close> read it.\<close>

fun truthy :: "jsval \<Rightarrow> bool" where
  "truthy JUndefined = False"
| "truthy JNull = False"
| "truthy (JBool b) = b"
| "truthy (JNum x) = (x \<noteq> 0)"
| "truthy (JStr s) = (s \<noteq> [])"
| "truthy (JArr xs) = True"
| "truthy (JObj kvs) = True"

text \<open>\<open>if (s)\<close> on an optional string: present and not empty.\<close>

fun truthy_str :: "string option \<Rightarrow> bool" where
  "truthy_str None = False"
| "truthy_str (Some s) = (s \<noteq> [])"

text \<open>\<open>if (x)\<close> on an optional number: present and not zero.\<close>

fun truthy_num :: "real option \<Rightarrow> bool" where
  "truthy_num None = False"
| "truthy_num (Some x) = (x \<noteq> 0)"

definition code_unit :: "char \<Rightarrow> nat" where
  "code_unit c = of_char c"

definition isDigit :: "char \<Rightarrow> bool" where
  "isDigit c = (48 \<le> code_unit c \<and> code_unit c \<le> 57)"

text \<open>
  \<open>String.prototype.toLowerCase\<close> on code units below 256: the letters A to Z and
  the Latin-1 capitals U+00C0 to U+00DE (the multiplication sign U+00D7 apart) move up by 32.
\<close>

definition lower_char :: "char \<Rightarrow> char" where
  "lower_char c =
     (let n = code_unit c in
      if (65 \<le> n \<and> n \<le> 90) \<or> (192 \<le> n \<and> n \<le> 222 \<and> n \<noteq> 215)
      then char_of (n + 32) else c)"

definition toLowerCase :: "string \<Rightarrow> string" where
  "toLowerCase s = map lower_char s"

definition upper_char :: "char \<Rightarrow> char" where
  "upper_char c =
     (let n = code_unit c in
      if (97 \<le> n \<and> n \<le> 122) \<or> (224 \<le> n \<and> n \<le> 254 \<and> n \<noteq> 247)
      then char_of (n - 32) else c)"

text \<open>
  \<open>toUpperCase\<close> is only applied to currency codes; the two code units below 256
  whose upper case lies outside that range (U+00DF, U+00FF) and U+00B5 are left as they
  are here.
\<close>

definition toUpperCase :: "string \<Rightarrow> string" where
  "toUpperCase s = map upper_char s"

text \<open>
  \<open>String.prototype.trim\<close>: white space and line terminators below 256 are
  TAB, LF, VT, FF, CR, SPACE and NO-BREAK SPACE.
\<close>

definition isWhiteSpace :: "char \<Rightarrow> bool" where
  "isWhiteSpace c = (code_unit c \<in> {9, 10, 11, 12, 13, 32, 160})"

definition trim :: "string \<Rightarrow> string" where
  "trim s = rev (dropWhile isWhiteSpace (rev (dropWhile isWhiteSpace s)))"

text \<open>\<open>s.replace(/\D/g, '')\<close>: every code unit that is not a digit is removed.\<close>

definition removeNonDigits :: "string \<Rightarrow> string" where
  "removeNonDigits s = filter isDigit s"

text \<open>\<open>Number.prototype.toString(16)\<close> and the decimal rendering of a natural number.\<close>

definition digit_char :: "nat \<Rightarrow> char" where
  "digit_char d = (if d < 10 then char_of (48 + d) else char_of (87 + d))"

text \<open>
  Digits of \<open>n\<close> in base \<open>b\<close>, most significant first, as \<open>toString(b)\<close> and
  template strings print a non-negative integer. Only the bases 10 and 16 are used.
\<close>

function to_base :: "int \<Rightarrow> int \<Rightarrow> string" where
  "to_base b n =
     (if b < 2 \<or> n < b then [digit_char (nat n)]
      else to_base b (n div b) @ [digit_char (nat (n mod b))])"
  by pat_completeness auto
termination
  by (relation "measure (\<lambda>(b, n). nat n)") (auto intro: int_div_less_self)

declare to_base.simps [simp del]

definition toString16 :: "int \<Rightarrow> string" where
  "toString16 n = to_base 16 n"

definition toString10 :: "int \<Rightarrow> string" where
  "toString10 n = to_base 10 n"

section \<open>Validators of the utility module\<close>

text \<open>\<open>/^\d{15,16}$/.test(pixelId)\<close>\<close>

definition isValidPixelId :: "string \<Rightarrow> bool" where
  "isValidPixelId pixelId =
     ((length pixelId = 15 \<or> length pixelId = 16) \<and> list_all isDigit pixelId)"

text \<open>\<open>typeof accessToken === 'string' && accessToken.length > 50\<close>\<close>

definition isValidAccessToken :: "string \<Rightarrow> bool" where
  "isValidAccessToken accessToken = (length accessToken > 50)"

definition validCurrencies :: "string list" where
  "validCurrencies =
     [''USD'', ''EUR'', ''GBP'', ''CAD'', ''AUD'', ''JPY'', ''CNY'', ''INR'',
      ''BDT'', ''PKR'', ''NGN'', ''KES'', ''ZAR'', ''EGP'', ''AED'', ''SAR'',
      ''BRL'', ''MXN'', ''RUB'', ''TRY'', ''KRW'', ''SGD'', ''HKD'', ''NZD'']"

definition isValidCurrency :: "string \<Rightarrow> bool" where
  "isValidCurrency currency = (toUpperCase currency \<in> set validCurrencies)"

text \<open>
  The keys of the configuration object of the server-side tracker
  (\<open>ConversionAPIConfig\<close>). \<open>validateConfig\<close> also accepts a
  \<open>Record<string, unknown>\<close> and reads a \<open>currency\<close> key from it; the field
  \<open>configCurrency\<close> stands for that key. In a stored configuration a key holds a
  value or \<open>undefined\<close> (\<open>None\<close>; nothing the tracker does tells a key that
  holds \<open>undefined\<close> from one that is absent). In an object that is spread over
  another (the argument of the constructor, the \<open>Partial\<close> argument of
  \<open>updateConfig\<close>) the two differ: there \<open>None\<close> is a key that is absent,
  \<open>Some None\<close> an own key that holds \<open>undefined\<close>, \<open>Some (Some v)\<close> an own
  key that holds \<open>v\<close>.
\<close>

record ('s, 'b) config_keys =
  accessToken :: 's
  pixelId :: 's
  debug :: 'b
  testEventCode :: 's
  apiVersion :: 's
  appSecret :: 's
  partnerAgent :: 's
  configCurrency :: 's

type_synonym ConversionAPIConfig = "(string option, bool option) config_keys"

type_synonym PartialConfig = "(string option option, bool option option) config_keys"

record ValidationResult =
  isValid :: bool
  errors :: "string list"
  warnings :: "string list"

definition validateConfig :: "ConversionAPIConfig \<Rightarrow> ValidationResult" where
  "validateConfig config =
     (let errors1 =
            (if \<not> truthy_str (pixelId config) then [''Pixel ID is required'']
             else if \<not> isValidPixelId (the (pixelId config)) then [''Invalid Pixel ID format'']
             else []);
          errors2 =
            (if truthy_str (accessToken config) \<and> \<not> isValidAccessToken (the (accessToken config))
             then errors1 @ [''Invalid access token format''] else errors1);
          warnings1 =
            (if truthy_str (configCurrency config) \<and> \<not> isValidCurrency (the (configCurrency config))
             then [''Unsupported currency code''] else [])
      in \<lparr> isValid = (length errors2 = 0), errors = errors2, warnings = warnings1 \<rparr>)"

section \<open>Hashing and the field normalizer\<close>

text \<open>
  What the hashing functions probe of their host: whether \<open>process.versions.node\<close>
  is set, whether \<open>require('crypto')\<close> and its \<open>createHash\<close> succeed, whether
  \<open>crypto.subtle\<close> exists and its \<open>digest\<close> succeeds. SHA-256 itself (hexadecimal
  digest of the string's bytes) is not part of the repository: it is the parameter
  \<open>sha256\<close>.
\<close>

record runtime =
  isNode :: bool
  nodeCrypto :: bool
  subtleCrypto :: bool
  sha256 :: "string \<Rightarrow> string"

text \<open>
  The fallback checksum: \<open>hash = (hash << 5) - hash + char; hash = hash & hash\<close>
  keeps a 32-bit signed integer; the result is \<open>Math.abs(hash).toString(16)\<close>.
\<close>

definition simpleHashStep :: "32 word \<Rightarrow> char \<Rightarrow> 32 word" where
  "simpleHashStep hash c = push_bit 5 hash - hash + of_nat (code_unit c)"

definition simpleHash :: "string \<Rightarrow> string" where
  "simpleHash normalizedData = toString16 \<bar>sint (foldl simpleHashStep 0 normalizedData)\<bar>"

text \<open>
  \<open>hashDataSync\<close>. The argument is declared a string, and the tests also pass
  \<open>null\<close> and \<open>undefined\<close>, so it is a \<open>jsval\<close> here. A failing
  \<open>require\<close> is caught and falls through to the checksum.
\<close>

fun hashDataSync :: "runtime \<Rightarrow> jsval \<Rightarrow> string" where
  "hashDataSync env (JStr data) =
     (if data = [] then []
      else let normalizedData = trim (toLowerCase data) in
        if isNode env \<and> nodeCrypto env then sha256 env normalizedData
        else simpleHash normalizedData)"
| "hashDataSync env v = []"

text \<open>
  \<open>hashData\<close>, the asynchronous variant: the value is what the returned promise
  resolves to (it never rejects). Node's \<open>crypto\<close> first, then \<open>crypto.subtle\<close>,
  then the checksum.
\<close>

fun hashData :: "runtime \<Rightarrow> jsval \<Rightarrow> string" where
  "hashData env (JStr data) =
     (if data = [] then []
      else let normalizedData = trim (toLowerCase data) in
        if isNode env \<and> nodeCrypto env then sha256 env normalizedData
        else if subtleCrypto env then sha256 env normalizedData
        else simpleHash normalizedData)"
| "hashData env v = []"

record UserData =
  email :: "string option"
  phone :: "string option"
  firstName :: "string option"
  lastName :: "string option"
  clientIpAddress :: "string option"
  clientUserAgent :: "string option"
  fbp :: "string option"
  fbc :: "string option"
  externalId :: "string option"
  loginId :: "string option"
  zipCode :: "string option"
  city :: "string option"
  state :: "string option"
  country :: "string option"
  dateOfBirth :: "string option"
  gender :: "string option"
  subscriptionId :: "string option"
  fbLoginId :: "string option"
  leadId :: "string option"
  f5first :: "string option"
  f5last :: "string option"
  fi :: "string option"
  dobd :: "string option"
  dobm :: "string option"
  doby :: "string option"
  madid :: "string option"
  anonId :: "string option"
  appUserId :: "string option"
  ctwaClid :: "string option"
  pageId :: "string option"

text \<open>The object literal \<open>{}\<close> at type \<open>UserData\<close>.\<close>

definition emptyUserData :: UserData where
  "emptyUserData =
     \<lparr> email = None, phone = None, firstName = None, lastName = None,
       clientIpAddress = None, clientUserAgent = None, fbp = None, fbc = None,
       externalId = None, loginId = None, zipCode = None, city = None, state = None,
       country = None, dateOfBirth = None, gender = None, subscriptionId = None,
       fbLoginId = None, leadId = None, f5first = None, f5last = None, fi = None,
       dobd = None, dobm = None, doby = None, madid = None, anonId = None,
       appUserId = None, ctwaClid = None, pageId = None \<rparr>"

text \<open>
  \<open>if (normalized.f) { normalized.f = hashDataSync(prepare(normalized.f)); }\<close>:
  an absent or empty field stays as it is.
\<close>

definition hashIfProvided :: "runtime \<Rightarrow> (string \<Rightarrow> string) \<Rightarrow> string option \<Rightarrow> string option" where
  "hashIfProvided env prepare field =
     (if truthy_str field then Some (hashDataSync env (JStr (prepare (the field)))) else field)"

text \<open>
  \<open>normalizeUserData\<close> works on a shallow copy (\<open>{ ...userData }\<close>), so the
  argument is not changed and every other field is carried over.
\<close>

definition normalizeUserData :: "runtime \<Rightarrow> UserData \<Rightarrow> UserData" where
  "normalizeUserData env userData =
     userData
       \<lparr> email := hashIfProvided env id (email userData),
         phone := hashIfProvided env removeNonDigits (phone userData),
         firstName := hashIfProvided env id (firstName userData),
         lastName := hashIfProvided env id (lastName userData),
         externalId := hashIfProvided env id (externalId userData),
         zipCode := hashIfProvided env id (zipCode userData),
         city := hashIfProvided env id (city userData),
         state := hashIfProvided env toLowerCase (state userData),
         country := hashIfProvided env toLowerCase (country userData) \<rparr>"

text \<open>
  \<open>createUserData\<close> builds the wire object key by key. \<open>hashData\<close> is
  asynchronous and is not awaited, so a hashed key holds a promise (\<open>WPromise\<close> with
  the string it resolves to); the external identifiers are copied as strings.
\<close>

datatype wire_value = WString string | WPromise string

definition hashedKey :: "runtime \<Rightarrow> string \<Rightarrow> string option \<Rightarrow> (string \<times> wire_value) list" where
  "hashedKey env key field =
     (if truthy_str field then [(key, WPromise (hashData env (JStr (the field))))] else [])"

definition plainKey :: "string \<Rightarrow> string option \<Rightarrow> (string \<times> wire_value) list" where
  "plainKey key field = (if truthy_str field then [(key, WString (the field))] else [])"

definition createUserData :: "runtime \<Rightarrow> UserData \<Rightarrow> (string \<times> wire_value) list" where
  "createUserData env userData =
     (let normalizedData = normalizeUserData env userData in
        hashedKey env ''em'' (email normalizedData)
      @ hashedKey env ''ph'' (phone normalizedData)
      @ hashedKey env ''fn'' (firstName normalizedData)
      @ hashedKey env ''ln'' (lastName normalizedData)
      @ hashedKey env ''db'' (dateOfBirth normalizedData)
      @ hashedKey env ''ge'' (gender normalizedData)
      @ hashedKey env ''ct'' (city normalizedData)
      @ hashedKey env ''st'' (state normalizedData)
      @ hashedKey env ''country'' (country normalizedData)
      @ hashedKey env ''zp'' (zipCode normalizedData)
      @ hashedKey env ''f5first'' (f5first normalizedData)
      @ hashedKey env ''f5last'' (f5last normalizedData)
      @ hashedKey env ''fi'' (fi normalizedData)
      @ hashedKey env ''dobd'' (dobd normalizedData)
      @ hashedKey env ''dobm'' (dobm normalizedData)
      @ hashedKey env ''doby'' (doby normalizedData)
      @ plainKey ''external_id'' (externalId normalizedData)
      @ plainKey ''client_ip_address'' (clientIpAddress normalizedData)
      @ plainKey ''client_user_agent'' (clientUserAgent normalizedData)
      @ plainKey ''fbc'' (fbc normalizedData)
      @ plainKey ''fbp'' (fbp normalizedData)
      @ plainKey ''subscription_id'' (subscriptionId normalizedData)
      @ plainKey ''fb_login_id'' (fbLoginId normalizedData)
      @ plainKey ''lead_id'' (leadId normalizedData))"

section \<open>Errors and the retry loop\<close>

text \<open>
  Thrown values: a plain \<open>Error\<close> with its message, or the \<open>TrackingError\<close> that
  \<open>createTrackingError(message, code, details)\<close> builds.
\<close>

datatype js_error =
    Error string
  | TrackingError string "string option" "js_error option"

fun errorMessage :: "js_error \<Rightarrow> string" where
  "errorMessage (Error message) = message"
| "errorMessage (TrackingError message code details) = message"

definition createTrackingError :: "string \<Rightarrow> string option \<Rightarrow> js_error option \<Rightarrow> js_error" where
  "createTrackingError message code details = TrackingError message code details"

text \<open>
  \<open>retry(fn, maxRetries, delay)\<close>. The action \<open>fn\<close> is effectful: it takes the
  state of the world and returns its outcome (\<open>Inl\<close> a rejection) with the new state.
  \<open>random k\<close> is the value of the \<open>Math.random()\<close> call made in iteration \<open>k\<close>
  of the loop. The log is not in the source: it counts the invocations of \<open>fn\<close> and
  lists the delays handed to \<open>setTimeout\<close>, in order. A thrown \<open>None\<close> is the
  \<open>undefined\<close> that \<open>throw lastError!\<close> throws when the loop body never ran.
\<close>

record retry_log =
  invocations :: nat
  delays :: "real list"

definition emptyLog :: retry_log where
  "emptyLog = \<lparr> invocations = 0, delays = [] \<rparr>"

function retry_loop ::
  "('s \<Rightarrow> ('e + 'a) \<times> 's) \<Rightarrow> int \<Rightarrow> real \<Rightarrow> (nat \<Rightarrow> real) \<Rightarrow> nat \<Rightarrow> 'e option
     \<Rightarrow> 's \<Rightarrow> retry_log \<Rightarrow> ('e option + 'a) \<times> 's \<times> retry_log" where
  "retry_loop fn maxRetries delay random i lastError s trace =
     (if int i \<le> maxRetries then
        (case fn s of
           (Inr result, s') \<Rightarrow> (Inr result, s', trace\<lparr>invocations := invocations trace + 1\<rparr>)
         | (Inl error, s') \<Rightarrow>
             if int i = maxRetries
             then (Inl (Some error), s', trace\<lparr>invocations := invocations trace + 1\<rparr>)
             else
               let backoffDelay = delay * 2 ^ i + random i * 1000 in
               retry_loop fn maxRetries delay random (i + 1) (Some error) s'
                 (trace\<lparr>invocations := invocations trace + 1,
                      delays := delays trace @ [backoffDelay]\<rparr>))
      else (Inl lastError, s, trace))"
  by pat_completeness auto
termination
  by (relation "measure (\<lambda>(fn, maxRetries, delay, random, i, lastError, s, trace).
        nat (maxRetries + 1 - int i))") auto

declare retry_loop.simps [simp del]

definition retry ::
  "('s \<Rightarrow> ('e + 'a) \<times> 's) \<Rightarrow> int \<Rightarrow> real \<Rightarrow> (nat \<Rightarrow> real) \<Rightarrow> 's
     \<Rightarrow> ('e option + 'a) \<times> 's \<times> retry_log" where
  "retry fn maxRetries delay random s =
     retry_loop fn maxRetries delay random 0 None s emptyLog"

text \<open>The state of the world after \<open>k\<close> invocations of the action, one after the other.\<close>

fun after_invocations :: "('s \<Rightarrow> ('e + 'a) \<times> 's) \<Rightarrow> nat \<Rightarrow> 's \<Rightarrow> 's" where
  "after_invocations fn 0 s = s"
| "after_invocations fn (Suc k) s = after_invocations fn k (snd (fn s))"

section \<open>The server-side tracker: events on the wire\<close>

text \<open>
  One entry of \<open>CustomData.contents\<close>. The interface declares \<open>quantity\<close> a
  number; \<open>createCustomData\<close> reads it with \<open>content.quantity || 1\<close>, so it is
  optional here.
\<close>

record ContentItem =
  id' :: string
  quantity :: "real option"
  itemPrice :: "real option"
  title :: "string option"
  category :: "string option"
  brand :: "string option"

record CustomData =
  value' :: "real option"
  currency :: "string option"
  contentName :: "string option"
  contentCategory :: "string option"
  contentIds :: "string list option"
  contents :: "ContentItem list option"
  contentType :: "string option"
  orderId :: "string option"
  searchString :: "string option"
  status :: "string option"
  numItems :: "real option"
  deliveryCategory :: "string option"
  customProperties :: "(string \<times> jsval) list option"

definition emptyCustomData :: CustomData where
  "emptyCustomData =
     \<lparr> value' = None, currency = None, contentName = None, contentCategory = None,
       contentIds = None, contents = None, contentType = None, orderId = None,
       searchString = None, status = None, numItems = None, deliveryCategory = None,
       customProperties = None \<rparr>"

text \<open>
  Objects built key by key are association lists in insertion order;
  \<open>obj[key] = v\<close> replaces the value of a key that exists and appends a new key.
\<close>

fun setProp :: "string \<Rightarrow> 'v \<Rightarrow> (string \<times> 'v) list \<Rightarrow> (string \<times> 'v) list" where
  "setProp key v [] = [(key, v)]"
| "setProp key v ((k, w) # kvs) =
     (if k = key then (key, v) # kvs else (k, w) # setProp key v kvs)"

definition strProp :: "string \<Rightarrow> string option \<Rightarrow> (string \<times> jsval) list" where
  "strProp key field = (if truthy_str field then [(key, JStr (the field))] else [])"

definition numOrUndefined :: "real option \<Rightarrow> jsval" where
  "numOrUndefined x = (case x of None \<Rightarrow> JUndefined | Some n \<Rightarrow> JNum n)"

text \<open>The object that \<open>contents.map\<close> builds for one item.\<close>

definition wireContent :: "ContentItem \<Rightarrow> jsval" where
  "wireContent content =
     JObj ([(''id'', JStr (id' content)),
            (''quantity'', JNum (if truthy_num (quantity content) then the (quantity content) else 1)),
            (''item_price'', numOrUndefined (itemPrice content))]
           @ strProp ''title'' (title content)
           @ strProp ''category'' (category content)
           @ strProp ''brand'' (brand content))"

definition reservedFields :: "string list" where
  "reservedFields =
     [''value'', ''currency'', ''content_name'', ''content_category'', ''content_ids'',
      ''content_type'', ''order_id'', ''search_string'', ''num_items'', ''status'',
      ''delivery_category'', ''contents'']"

text \<open>The \<open>forEach\<close> over the keys of \<open>customProperties\<close>.\<close>

fun mergeCustomProperties ::
  "(string \<times> jsval) list \<Rightarrow> (string \<times> jsval) list \<Rightarrow> (string \<times> jsval) list" where
  "mergeCustomProperties [] customDataObj = customDataObj"
| "mergeCustomProperties ((key, v) # props) customDataObj =
     mergeCustomProperties props
       (if key \<notin> set reservedFields then setProp key v customDataObj else customDataObj)"

definition createCustomData :: "CustomData \<Rightarrow> (string \<times> jsval) list" where
  "createCustomData customData =
     (let customDataObj =
            (case value' customData of None \<Rightarrow> [] | Some v \<Rightarrow> [(''value'', JNum v)])
          @ strProp ''currency'' (currency customData)
          @ strProp ''content_name'' (contentName customData)
          @ strProp ''content_category'' (contentCategory customData)
          @ (case contentIds customData of None \<Rightarrow> []
             | Some ids \<Rightarrow> [(''content_ids'', JArr (map JStr ids))])
          @ strProp ''content_type'' (contentType customData)
          @ strProp ''order_id'' (orderId customData)
          @ strProp ''search_string'' (searchString customData)
          @ (case numItems customData of None \<Rightarrow> [] | Some n \<Rightarrow> [(''num_items'', JNum n)])
          @ strProp ''status'' (status customData)
          @ strProp ''delivery_category'' (deliveryCategory customData)
          @ (case contents customData of None \<Rightarrow> []
             | Some cs \<Rightarrow> [(''contents'', JArr (map wireContent cs))])
      in case customProperties customData of
           None \<Rightarrow> customDataObj
         | Some props \<Rightarrow> mergeCustomProperties props customDataObj)"

text \<open>
  \<open>ServerEventData\<close>. Only the fields the tracker reads are kept. \<open>actionSource\<close>
  is a string: the union type is not checked at run time, the validator checks it.
\<close>

record ServerEventData =
  eventName :: "string option"
  eventTime :: "real option"
  eventId :: "string option"
  eventSourceUrl :: "string option"
  actionSource :: "string option"
  userData :: "UserData option"
  customData :: "CustomData option"
  optOut :: "bool option"
  dataProcessingOptions :: "string list option"
  dataProcessingOptionsCountry :: "real option"
  dataProcessingOptionsState :: "real option"

text \<open>
  The event as it is sent. \<open>opt_out\<close> and the data-processing keys are spread in
  only when their source is truthy; \<open>event_source_url\<close> may be \<open>undefined\<close>.
\<close>

record wire_event =
  event_name :: "string option"
  event_time :: real
  event_id :: string
  action_source :: string
  event_source_url :: "string option"
  user_data :: "(string \<times> wire_value) list"
  custom_data :: "(string \<times> jsval) list"
  opt_out :: "bool option"
  data_processing_options :: "string list option"
  data_processing_options_country :: "real option"
  data_processing_options_state :: "real option"

record request_body =
  data :: "wire_event list"
  test_event_code :: "string option"
  access_token :: "string option"
  partner_agent :: "string option"
  appsecret_proof :: "string option"

text \<open>A POST request: the URL and the body before \<open>JSON.stringify\<close>.\<close>

record request =
  url :: string
  body :: request_body

text \<open>
  What the network answers. \<open>bodyJson\<close> is the result of parsing the body as JSON:
  \<open>Inl\<close> carries the message of the \<open>SyntaxError\<close> when the body is not valid JSON.
\<close>

record http_response =
  httpStatus :: int
  statusText :: string
  bodyText :: string
  bodyJson :: "string + jsval"

datatype net_outcome = NetFails js_error | NetReplies http_response

text \<open>
  The host of the tracker: the hashing runtime, and what else the tracker reads from
  outside. \<open>nowMs\<close> is the reading of \<open>Date.now()\<close> during the synchronous part of
  a call; \<open>windowHref\<close> is \<open>window.location.href\<close> where a window exists;
  \<open>eventIdRandom k\<close> is the random suffix that \<open>generateEventId\<close> produces for the
  event at position \<open>k\<close> of a call; \<open>jitter k\<close> is the value of \<open>Math.random()\<close>
  in the \<open>k\<close>-th backoff of a call. \<open>nodeHttps\<close> says that \<open>require\<close> loads
  Node's \<open>https\<close> and \<open>url\<close> modules. \<open>fetchOutcome k r\<close> is what the \<open>k\<close>-th
  evaluation of \<open>fetch\<close> does with request \<open>r\<close>, \<open>httpsOutcome k r\<close> the same
  for \<open>https.request\<close>. HMAC-SHA256, \<open>JSON.stringify\<close> and the conversion of a
  value to a string in a template are parameters as well.
\<close>

record host = runtime +
  nowMs :: int
  windowHref :: "string option"
  eventIdRandom :: "nat \<Rightarrow> string"
  jitter :: "nat \<Rightarrow> real"
  nodeHttps :: bool
  hmacSha256 :: "string \<Rightarrow> string \<Rightarrow> string"
  jsonStringify :: "request_body \<Rightarrow> string"
  jsString :: "jsval \<Rightarrow> string"
  fetchOutcome :: "nat \<Rightarrow> request \<Rightarrow> net_outcome"
  httpsOutcome :: "nat \<Rightarrow> request \<Rightarrow> net_outcome"

definition getCurrentTimestamp :: "'a host_scheme \<Rightarrow> real" where
  "getCurrentTimestamp h = of_int (nowMs h div 1000)"

definition generateEventId :: "'a host_scheme \<Rightarrow> nat \<Rightarrow> string \<Rightarrow> string" where
  "generateEventId h k prefix =
     prefix @ ''_'' @ toString10 (nowMs h) @ ''_'' @ eventIdRandom h k"

text \<open>
  \<open>createServerEvent\<close> for the event at position \<open>k\<close> of the call. The hashing
  functions see the host as their runtime.
\<close>

definition createServerEvent :: "host \<Rightarrow> nat \<Rightarrow> ServerEventData \<Rightarrow> wire_event" where
  "createServerEvent h k eventData =
     \<lparr> event_name = eventName eventData,
       event_time = (if truthy_num (eventTime eventData) then the (eventTime eventData)
                     else getCurrentTimestamp h),
       event_id = (if truthy_str (eventId eventData) then the (eventId eventData)
                   else generateEventId h k ''event''),
       action_source = (if truthy_str (actionSource eventData) then the (actionSource eventData)
                        else ''website''),
       event_source_url = (if truthy_str (eventSourceUrl eventData) then eventSourceUrl eventData
                           else windowHref h),
       user_data = createUserData (runtime.truncate h)
                     (case userData eventData of None \<Rightarrow> emptyUserData | Some u \<Rightarrow> u),
       custom_data = createCustomData
                     (case customData eventData of None \<Rightarrow> emptyCustomData | Some c \<Rightarrow> c),
       opt_out = (if optOut eventData = Some True then Some True else None),
       data_processing_options = dataProcessingOptions eventData,
       data_processing_options_country =
         (if dataProcessingOptions eventData = None then None
          else dataProcessingOptionsCountry eventData),
       data_processing_options_state =
         (if dataProcessingOptions eventData = None then None
          else dataProcessingOptionsState eventData) \<rparr>"

text \<open>\<open>events.map((event) => this.createServerEvent(event))\<close>, positions counted from \<open>k\<close>.\<close>

fun createServerEvents :: "host \<Rightarrow> nat \<Rightarrow> ServerEventData list \<Rightarrow> wire_event list" where
  "createServerEvents h k [] = []"
| "createServerEvents h k (e # es) = createServerEvent h k e # createServerEvents h (Suc k) es"

section \<open>Validation of events\<close>

definition validActionSources :: "string list" where
  "validActionSources =
     [''email'', ''website'', ''phone_call'', ''chat'', ''physical_store'',
      ''system_generated'', ''business_messaging'', ''other'']"

text \<open>
  \<open>validateServerEventData\<close>: \<open>None\<close> when it returns, \<open>Some\<close> the error it
  throws. The warning about a non-standard event name only writes to the console in
  debug mode and is left out.
\<close>

definition validateServerEventData :: "'a host_scheme \<Rightarrow> ServerEventData \<Rightarrow> js_error option" where
  "validateServerEventData h eventData =
     (if \<not> truthy_str (eventName eventData)
      then Some (createTrackingError ''Event name is required'' (Some ''VALIDATION_ERROR'') None)
      else if truthy_str (actionSource eventData)
              \<and> the (actionSource eventData) \<notin> set validActionSources
      then Some (createTrackingError
                   (''Invalid action source: '' @ the (actionSource eventData))
                   (Some ''VALIDATION_ERROR'') None)
      else if truthy_num (eventTime eventData)
              \<and> (the (eventTime eventData) < 1000000000
                  \<or> the (eventTime eventData) > of_int (nowMs h) / 1000 + 3600)
      then Some (createTrackingError
                   ''Event time must be a valid Unix timestamp within reasonable bounds''
                   (Some ''VALIDATION_ERROR'') None)
      else None)"

text \<open>
  The \<open>forEach\<close> of \<open>sendBatchEvents\<close>: the first event that fails validation
  stops the loop, its error rewrapped with its index.
\<close>

fun validateAll :: "'a host_scheme \<Rightarrow> nat \<Rightarrow> ServerEventData list \<Rightarrow> js_error option" where
  "validateAll h index [] = None"
| "validateAll h index (event # events) =
     (case validateServerEventData h event of
        Some error \<Rightarrow>
          Some (createTrackingError
                  (''Event '' @ toString10 (int index) @ '': '' @ errorMessage error)
                  (Some ''VALIDATION_ERROR'') None)
      | None \<Rightarrow> validateAll h (Suc index) events)"

section \<open>The response mapper\<close>

text \<open>
  Reading a property: of an object, its value or \<open>undefined\<close>; of \<open>null\<close> and
  \<open>undefined\<close>, a \<open>TypeError\<close>; of any other value, \<open>undefined\<close> for the keys
  read here (none of them is a property of a string, a number, a boolean or an array).
\<close>

fun getProp :: "jsval \<Rightarrow> string \<Rightarrow> js_error + jsval" where
  "getProp (JObj kvs) key = Inr (case map_of kvs key of None \<Rightarrow> JUndefined | Some v \<Rightarrow> v)"
| "getProp JNull key = Inl (Error (''Cannot read properties of null (reading '' @ key @ '')''))"
| "getProp JUndefined key =
     Inl (Error (''Cannot read properties of undefined (reading '' @ key @ '')''))"
| "getProp v key = Inr JUndefined"

text \<open>\<open>v || d\<close>\<close>

definition orElse :: "jsval \<Rightarrow> jsval \<Rightarrow> jsval" where
  "orElse v d = (if truthy v then v else d)"

text \<open>
  \<open>EventResponse\<close>. The casts of \<open>transformResponse\<close> check nothing, so every field
  holds whatever value the reply had.
\<close>

record EventResponse =
  eventsReceived :: jsval
  events_received :: jsval
  messages :: jsval
  fbtrace_id :: jsval
  response_id :: jsval
  numProcessedEntries :: jsval

definition transformResponse :: "jsval \<Rightarrow> js_error + EventResponse" where
  "transformResponse resp =
     (case getProp resp ''events_received'' of
        Inl e \<Rightarrow> Inl e
      | Inr er \<Rightarrow>
          let eventsReceived = orElse er (JNum 0) in
          Inr \<lparr> eventsReceived = eventsReceived,
                events_received = eventsReceived,
                messages = orElse (projr (getProp resp ''messages'')) (JArr []),
                fbtrace_id = projr (getProp resp ''fbtrace_id''),
                response_id = projr (getProp resp ''id''),
                numProcessedEntries =
                  orElse (projr (getProp resp ''num_processed_entries'')) (JNum 0) \<rparr>)"

section \<open>The tracker: configuration, transport, submission\<close>

record tracker =
  config :: ConversionAPIConfig
  retryAttempts :: int
  retryDelay :: real
  baseUrl :: string

text \<open>An optional string inside a template: \<open>undefined\<close> prints as such.\<close>

definition templateStr :: "string option \<Rightarrow> string" where
  "templateStr field = (case field of None \<Rightarrow> ''undefined'' | Some s \<Rightarrow> s)"

definition eventsUrl :: "ConversionAPIConfig \<Rightarrow> string" where
  "eventsUrl c =
     ''https://graph.facebook.com/'' @ templateStr (apiVersion c) @ ''/''
       @ templateStr (pixelId c) @ ''/events''"

text \<open>\<open>errors.join(', ')\<close>\<close>

fun joinComma :: "string list \<Rightarrow> string" where
  "joinComma [] = []"
| "joinComma [x] = x"
| "joinComma (x # y # zs) = x @ '', '' @ joinComma (y # zs)"

text \<open>
  The object spread \<open>{ ...a, ...b }\<close> on configurations: an own key of \<open>b\<close>
  wins over the same key of \<open>a\<close>, also when it holds \<open>undefined\<close>.
\<close>

definition spread :: "'a \<Rightarrow> 'a option \<Rightarrow> 'a" where
  "spread a b = (case b of None \<Rightarrow> a | Some v \<Rightarrow> v)"

definition mergeConfig :: "ConversionAPIConfig \<Rightarrow> PartialConfig \<Rightarrow> ConversionAPIConfig" where
  "mergeConfig a b =
     \<lparr> accessToken = spread (accessToken a) (accessToken b),
       pixelId = spread (pixelId a) (pixelId b),
       debug = spread (debug a) (debug b),
       testEventCode = spread (testEventCode a) (testEventCode b),
       apiVersion = spread (apiVersion a) (apiVersion b),
       appSecret = spread (appSecret a) (appSecret b),
       partnerAgent = spread (partnerAgent a) (partnerAgent b),
       configCurrency = spread (configCurrency a) (configCurrency b) \<rparr>"

text \<open>\<open>newConfig.key\<close> read for its truthiness: an own key holding a string that is not empty.\<close>

definition truthy_key :: "string option option \<Rightarrow> bool" where
  "truthy_key k = (case k of None \<Rightarrow> False | Some v \<Rightarrow> truthy_str v)"

definition defaultConfig :: ConversionAPIConfig where
  "defaultConfig =
     \<lparr> accessToken = None, pixelId = None, debug = Some False, testEventCode = None,
       apiVersion = Some ''v18.0'', appSecret = None, partnerAgent = None,
       configCurrency = None \<rparr>"

text \<open>The constructor: \<open>Inl\<close> the error it throws.\<close>

definition newTracker :: "PartialConfig \<Rightarrow> js_error + tracker" where
  "newTracker c =
     (let config' = mergeConfig defaultConfig c;
          validation = validateConfig config'
      in if \<not> isValid validation
         then Inl (createTrackingError
                     (''Invalid configuration: '' @ joinComma (errors validation))
                     (Some ''CONFIG_ERROR'') None)
         else Inr \<lparr> config = config', retryAttempts = 3, retryDelay = 1000,
                    baseUrl = eventsUrl config' \<rparr>)"

text \<open>
  \<open>updateConfig\<close>: the error it throws, if any, and the tracker as the call leaves
  it. The assignments to \<open>this.config\<close> and \<open>this.baseUrl\<close> come before the
  validation.
\<close>

definition updateConfig :: "tracker \<Rightarrow> PartialConfig \<Rightarrow> js_error option \<times> tracker" where
  "updateConfig t newConfig =
     (let t1 = t\<lparr>config := mergeConfig (config t) newConfig\<rparr>;
          t2 = (if truthy_key (pixelId newConfig) \<or> truthy_key (apiVersion newConfig)
                then t1\<lparr>baseUrl := eventsUrl (config t1)\<rparr> else t1);
          validation = validateConfig (config t2)
      in if \<not> isValid validation
         then (Some (createTrackingError
                       (''Invalid configuration update: '' @ joinComma (errors validation))
                       (Some ''CONFIG_ERROR'') None), t2)
         else (None, t2))"

text \<open>
  The world outside: the requests handed to \<open>fetch\<close> and to \<open>https.request\<close> so
  far, in order. Each evaluation of either function adds one entry.
\<close>

record world =
  fetchCalls :: "request list"
  httpsCalls :: "request list"

definition networkCalls :: "world \<Rightarrow> nat" where
  "networkCalls w = length (fetchCalls w) + length (httpsCalls w)"

definition generateSignature :: "tracker \<Rightarrow> host \<Rightarrow> string \<Rightarrow> string" where
  "generateSignature t h payload =
     (if \<not> truthy_str (appSecret (config t)) then []
      else if isNode h then
        (if nodeCrypto h then hmacSha256 h (the (appSecret (config t))) payload else [])
      else [])"

definition apiError :: "js_error \<Rightarrow> js_error" where
  "apiError error =
     createTrackingError (''API request failed: '' @ errorMessage error) (Some ''API_ERROR'')
       (Some error)"

text \<open>\<open>response.ok\<close>, and the same test on \<open>res.statusCode\<close>.\<close>

definition isOk :: "http_response \<Rightarrow> bool" where
  "isOk r = (200 \<le> httpStatus r \<and> httpStatus r < 300)"

text \<open>\<open>${msg || fallback}\<close> for \<open>msg = parsed.error?.message\<close>; \<open>Inl\<close> a \<open>TypeError\<close>.\<close>

definition errorText :: "host \<Rightarrow> jsval \<Rightarrow> string \<Rightarrow> js_error + string" where
  "errorText h parsed fallback =
     (case getProp parsed ''error'' of
        Inl e \<Rightarrow> Inl e
      | Inr err \<Rightarrow>
          let msg = (if err = JNull \<or> err = JUndefined then JUndefined
                     else projr (getProp err ''message''))
          in Inr (if truthy msg then (case msg of JStr m \<Rightarrow> m | v \<Rightarrow> jsString h v)
                  else fallback))"

text \<open>The part of \<open>makeRequest\<close> after \<open>fetch\<close> has answered; errors are thrown raw.\<close>

definition readResponse :: "host \<Rightarrow> http_response \<Rightarrow> js_error + jsval" where
  "readResponse h r =
     (if \<not> isOk r then
        (let errorData = (case bodyJson r of Inl m \<Rightarrow> JObj [] | Inr j \<Rightarrow> j) in
         case errorText h errorData (statusText r) of
           Inl e \<Rightarrow> Inl e
         | Inr m \<Rightarrow> Inl (Error (''HTTP '' @ toString10 (httpStatus r) @ '': '' @ m)))
      else (case bodyJson r of Inl m \<Rightarrow> Inl (Error m) | Inr j \<Rightarrow> Inr j))"

text \<open>
  The \<open>end\<close> handler of the \<open>https.request\<close> fallback. Its promise is returned
  without \<open>await\<close>, so its rejections do not pass through the \<open>catch\<close> of
  \<open>makeRequest\<close>.
\<close>

definition readHttpsResponse :: "host \<Rightarrow> http_response \<Rightarrow> js_error + jsval" where
  "readHttpsResponse h r =
     (case bodyJson r of
        Inl m \<Rightarrow> Inl (Error (''Failed to parse response: '' @ bodyText r))
      | Inr result \<Rightarrow>
          if isOk r then Inr result
          else (case errorText h result (bodyText r) of
                  Inl e \<Rightarrow> Inl (Error (''Failed to parse response: '' @ bodyText r))
                | Inr m \<Rightarrow> Inl (Error (''HTTP '' @ toString10 (httpStatus r) @ '': '' @ m))))"

definition wrapApiError :: "js_error + jsval \<Rightarrow> js_error + jsval" where
  "wrapApiError res = (case res of Inl e \<Rightarrow> Inl (apiError e) | Inr j \<Rightarrow> Inr j)"

text \<open>The request that \<open>makeRequest\<close> builds: the URL and the body with its proof.\<close>

definition buildRequest :: "tracker \<Rightarrow> host \<Rightarrow> wire_event list \<Rightarrow> request" where
  "buildRequest t h events =
     (let requestBody0 =
            \<lparr> data = events,
              test_event_code = testEventCode (config t),
              access_token = accessToken (config t),
              partner_agent = (if truthy_str (partnerAgent (config t))
                               then partnerAgent (config t) else None),
              appsecret_proof = None \<rparr>;
          requestBody =
            (if truthy_str (appSecret (config t))
             then requestBody0\<lparr>appsecret_proof :=
                    Some (generateSignature t h (jsonStringify h requestBody0))\<rparr>
             else requestBody0)
      in \<lparr> url = baseUrl t, body = requestBody \<rparr>)"

definition makeRequest :: "tracker \<Rightarrow> host \<Rightarrow> wire_event list \<Rightarrow> world \<Rightarrow> (js_error + jsval) \<times> world" where
  "makeRequest t h events w =
     (let req = buildRequest t h events;
          w1 = w\<lparr>fetchCalls := fetchCalls w @ [req]\<rparr>
      in case fetchOutcome h (length (fetchCalls w)) req of
           NetReplies r \<Rightarrow> (wrapApiError (readResponse h r), w1)
         | NetFails e \<Rightarrow>
             if \<not> isNode h then (Inl (apiError e), w1)
             else if \<not> nodeHttps h
             then (Inl (apiError (Error ''Module https not found'')), w1)
             else
               let w2 = w1\<lparr>httpsCalls := httpsCalls w1 @ [req]\<rparr> in
               (case httpsOutcome h (length (httpsCalls w1)) req of
                  NetFails e2 \<Rightarrow> (Inl e2, w2)
                | NetReplies r \<Rightarrow> (readHttpsResponse h r, w2)))"

text \<open>The action handed to \<open>retry\<close>: the request, then the response mapper.\<close>

definition requestAction ::
  "tracker \<Rightarrow> host \<Rightarrow> wire_event list \<Rightarrow> world \<Rightarrow> (js_error + EventResponse) \<times> world" where
  "requestAction t h events w =
     (case makeRequest t h events w of
        (Inl e, w') \<Rightarrow> (Inl e, w')
      | (Inr response, w') \<Rightarrow> (transformResponse response, w'))"

text \<open>
  \<open>sendEvent\<close> and \<open>sendBatchEvents\<close>: the settled promise (\<open>Inl\<close> the value it
  is rejected with), the world afterwards, and the log of the retry loop.
\<close>

definition sendEvent ::
  "tracker \<Rightarrow> host \<Rightarrow> ServerEventData \<Rightarrow> world
     \<Rightarrow> (js_error option + EventResponse) \<times> world \<times> retry_log" where
  "sendEvent t h eventData w =
     (case validateServerEventData h eventData of
        Some e \<Rightarrow> (Inl (Some e), w, emptyLog)
      | None \<Rightarrow>
          let serverEvent = createServerEvent h 0 eventData in
          retry (requestAction t h [serverEvent]) (retryAttempts t) (retryDelay t) (jitter h) w)"

definition sendBatchEvents ::
  "tracker \<Rightarrow> host \<Rightarrow> ServerEventData list \<Rightarrow> world
     \<Rightarrow> (js_error option + EventResponse) \<times> world \<times> retry_log" where
  "sendBatchEvents t h events w =
     (if length events = 0
      then (Inl (Some (createTrackingError ''Events array is required and cannot be empty''
                         (Some ''VALIDATION_ERROR'') None)), w, emptyLog)
      else if length events > 1000
      then (Inl (Some (createTrackingError ''Maximum 1000 events per batch allowed''
                         (Some ''VALIDATION_ERROR'') None)), w, emptyLog)
      else (case validateAll h 0 events of
              Some e \<Rightarrow> (Inl (Some e), w, emptyLog)
            | None \<Rightarrow>
                let serverEvents = createServerEvents h 0 events in
                retry (requestAction t h serverEvents) (retryAttempts t) (retryDelay t)
                  (jitter h) w))"

section \<open>Concrete inputs\<close>

text \<open>
  Inputs on which the properties below are evaluated: a browser without
  \<open>crypto.subtle\<close> (so that hashing uses the checksum), a Node host whose every
  \<open>fetch\<close> is answered \<open>200 OK\<close> with a body that is not JSON, a tracker as the
  constructor builds it, and a minimal event.
\<close>

definition browserRuntime :: runtime where
  "browserRuntime =
     \<lparr> isNode = False, nodeCrypto = False, subtleCrypto = False, sha256 = (\<lambda>s. []) \<rparr>"

definition htmlReply :: http_response where
  "htmlReply =
     \<lparr> httpStatus = 200, statusText = ''OK'', bodyText = ''<html>'',
       bodyJson = Inl ''Unexpected token <'' \<rparr>"

definition testHost :: host where
  "testHost =
     \<lparr> isNode = True, nodeCrypto = False, subtleCrypto = False, sha256 = (\<lambda>s. []),
       nowMs = 1700000000000, windowHref = None, eventIdRandom = (\<lambda>k. ''k3j9x0q1z''),
       jitter = (\<lambda>k. 1 / 4), nodeHttps = True, hmacSha256 = (\<lambda>secret payload. []),
       jsonStringify = (\<lambda>b. []), jsString = (\<lambda>v. []),
       fetchOutcome = (\<lambda>k r. NetReplies htmlReply),
       httpsOutcome = (\<lambda>k r. NetFails (Error ''socket hang up'')) \<rparr>"

definition testConfig :: ConversionAPIConfig where
  "testConfig =
     \<lparr> accessToken = Some (replicate 60 CHR ''t''), pixelId = Some ''123456789012345'',
       debug = None, testEventCode = None, apiVersion = None, appSecret = None,
       partnerAgent = None, configCurrency = None \<rparr>"

definition testTracker :: tracker where
  "testTracker =
     \<lparr> config = testConfig\<lparr>debug := Some False, apiVersion := Some ''v18.0''\<rparr>,
       retryAttempts = 3, retryDelay = 1000,
       baseUrl = ''https://graph.facebook.com/v18.0/123456789012345/events'' \<rparr>"

definition testEvent :: ServerEventData where
  "testEvent =
     \<lparr> eventName = Some ''Purchase'', eventTime = None, eventId = None,
       eventSourceUrl = Some ''https://example.com'', actionSource = None,
       userData = None, customData = None, optOut = None, dataProcessingOptions = None,
       dataProcessingOptionsCountry = None, dataProcessingOptionsState = None \<rparr>"

definition emptyWorld :: world where
  "emptyWorld = \<lparr> fetchCalls = [], httpsCalls = [] \<rparr>"

text \<open>The argument of the constructor: a pixel id and an access token, nothing else.\<close>

definition testOptions :: PartialConfig where
  "testOptions =
     \<lparr> accessToken = Some (Some (replicate 60 CHR ''t'')),
       pixelId = Some (Some ''123456789012345''),
       debug = None, testEventCode = None, apiVersion = None, appSecret = None,
       partnerAgent = None, configCurrency = None \<rparr>"

text \<open>
  An update whose only own key is the pixel id: \<open>{ pixelId: p }\<close> for
  \<open>Some p\<close>, \<open>{ pixelId: undefined }\<close> for \<open>None\<close>.
\<close>

definition pixelIdUpdate :: "string option \<Rightarrow> PartialConfig" where
  "pixelIdUpdate p =
     \<lparr> accessToken = None, pixelId = Some p, debug = None, testEventCode = None,
       apiVersion = None, appSecret = None, partnerAgent = None, configCurrency = None \<rparr>"

text \<open>
  A Node host on which \<open>fetch\<close> itself fails, so that every request goes through the
  \<open>https.request\<close> fallback, and is answered \<open>200 OK\<close> with a body that is not JSON.
\<close>

definition fallbackHost :: host where
  "fallbackHost =
     testHost\<lparr> fetchOutcome := (\<lambda>k r. NetFails (Error ''fetch is not defined'')),
               httpsOutcome := (\<lambda>k r. NetReplies htmlReply) \<rparr>"

section \<open>Verified properties\<close>

subsection \<open>Shared lemmas\<close>

text \<open>
  An action that is rejected on every invocation drives the loop to its last iteration:
  from iteration \<open>i\<close> on it is invoked once per remaining iteration and the loop
  rethrows the rejection of the last invocation.
\<close>

lemma retry_loop_all_fail:
  assumes fails: "\<forall>s. isl (fst (fn s))"
  shows "i + n = M \<Longrightarrow>
    retry_loop fn (int M) delay random i lastError s trace =
      (Inl (Some (projl (fst (fn (after_invocations fn n s))))),
       after_invocations fn (Suc n) s,
       \<lparr> invocations = invocations trace + n + 1,
         delays = delays trace @ map (\<lambda>k. delay * 2 ^ k + random k * 1000) [i..<M] \<rparr>)"
proof (induction n arbitrary: i s trace lastError)
  case 0
  then have iM: "i = M" by simp
  from fails obtain e s' where f: "fn s = (Inl e, s')"
    by (metis isl_def prod.collapse)
  show ?case
    by (subst retry_loop.simps) (simp add: iM f)
next
  case (Suc n)
  then have lt: "i < M" and step: "Suc i + n = M" by simp_all
  from fails obtain e s' where f: "fn s = (Inl e, s')"
    by (metis isl_def prod.collapse)
  have up: "[i..<M] = i # [Suc i..<M]"
    using lt by (simp add: upt_conv_Cons)
  show ?case
    apply (subst retry_loop.simps)
    using lt apply (simp add: f Let_def Suc.IH [OF step] up)
    done
qed

lemma map_of_strProp_other: "k \<noteq> key \<Longrightarrow> map_of (strProp key field) k = None"
  by (simp add: strProp_def)

lemma map_of_setProp_other: "k \<noteq> key \<Longrightarrow> map_of (setProp key v kvs) k = map_of kvs k"
  by (induction kvs) auto

lemma map_of_hashedKey_other: "k \<noteq> key \<Longrightarrow> map_of (hashedKey env key field) k = None"
  by (simp add: hashedKey_def)

lemma map_of_plainKey_other: "k \<noteq> key \<Longrightarrow> map_of (plainKey key field) k = None"
  by (simp add: plainKey_def)

lemma map_of_plainKey_same:
  "map_of (plainKey key field) key = (if truthy_str field then Some (WString (the field)) else None)"
  by (simp add: plainKey_def)

text \<open>The tracker of the concrete inputs is the one the constructor builds.\<close>

lemma newTracker_testOptions: "newTracker testOptions = Inr testTracker"
  by (simp add: newTracker_def testOptions_def testConfig_def testTracker_def mergeConfig_def defaultConfig_def
      spread_def validateConfig_def isValidPixelId_def isValidAccessToken_def isDigit_def
      code_unit_def eventsUrl_def templateStr_def Let_def)

subsection \<open>The retry loop\<close>

text \<open>
  C1, as amended. For an action that is rejected on every invocation and
  \<open>maxRetries \<ge> 0\<close>, \<open>retry\<close> invokes the action exactly \<open>maxRetries + 1\<close>
  times (the parameter counts the retries, not the attempts) and sleeps \<open>maxRetries\<close>
  times; the delay before retry \<open>k\<close> (counted from 0) is \<open>delay * 2 ^ k\<close> plus a
  jitter \<open>random k * 1000\<close>, which lies in \<open>[0, 1000)\<close> since \<open>Math.random()\<close>
  lies in \<open>[0, 1)\<close>; and the value it throws is the rejection of the last invocation
  itself. Delays are computed on the reals.
\<close>

theorem retry_invokes_maxRetries_plus_one:
  assumes fails: "\<forall>s. isl (fst (fn s))"
    and attempts: "0 \<le> maxRetries"
    and rnd: "\<forall>k. 0 \<le> random k \<and> random k < 1"
  shows "retry fn maxRetries delay random s =
      (Inl (Some (projl (fst (fn (after_invocations fn (nat maxRetries) s))))),
       after_invocations fn (nat maxRetries + 1) s,
       \<lparr> invocations = nat maxRetries + 1,
         delays = map (\<lambda>k. delay * 2 ^ k + random k * 1000) [0..<nat maxRetries] \<rparr>)
    \<and> (\<forall>k < nat maxRetries. 0 \<le> random k * 1000 \<and> random k * 1000 < 1000)"
proof -
  from attempts obtain M where M: "maxRetries = int M"
    by (metis nonneg_int_cases)
  have "retry_loop fn (int M) delay random 0 None s emptyLog =
      (Inl (Some (projl (fst (fn (after_invocations fn M s))))),
       after_invocations fn (Suc M) s,
       \<lparr> invocations = invocations emptyLog + M + 1,
         delays = delays emptyLog @ map (\<lambda>k. delay * 2 ^ k + random k * 1000) [0..<M] \<rparr>)"
    by (rule retry_loop_all_fail [OF fails]) simp
  then show ?thesis
    using rnd by (simp add: retry_def M emptyLog_def)
qed

text \<open>
  The action counts its invocations in the state and is rejected with that count: with
  \<open>maxRetries = 3\<close> it is invoked four times, the delays are 1000, 2000 and 4000 plus
  a jitter of 500 each, and the rejection of the fourth invocation is rethrown.
\<close>

theorem retry_invokes_maxRetries_plus_one_witness:
  "retry (\<lambda>n. (Inl n :: nat + unit, Suc n)) 3 1000 (\<lambda>k. 1 / 2) (0::nat) =
     (Inl (Some 3), 4, \<lparr> invocations = 4, delays = [1500, 2500, 4500] \<rparr>)"
  using retry_invokes_maxRetries_plus_one
    [of "\<lambda>n. (Inl n :: nat + unit, Suc n)" 3 "\<lambda>k. 1 / 2" 1000 "0::nat"]
  by (simp add: upt_rec numeral_eq_Suc)

text \<open>
  The specification promises three invocations for \<open>maxAttempts = 3\<close>; the action
  is invoked four times.
\<close>

theorem retry_three_attempts_counterexample:
  "invocations (snd (snd (retry (\<lambda>n. (Inl ''fail'' :: string + unit, Suc n)) 3 1000
      (\<lambda>k. 0) (0::nat)))) = 4
   \<and> fst (snd (retry (\<lambda>n. (Inl ''fail'' :: string + unit, Suc n)) 3 1000
      (\<lambda>k. 0) (0::nat))) = 4"
  by (simp add: retry_def retry_loop.simps emptyLog_def)

subsection \<open>Parse failures and the retry loop\<close>







text \<open>
  The fallback evaluated: the error thrown after four invocations is the plain
  \<open>Error\<close> of the \<open>end\<close> handler, without code.
\<close>

lemma sendEvent_https_parse_failure:
  "fst (sendEvent testTracker fallbackHost testEvent emptyWorld) =
     Inl (Some (Error ''Failed to parse response: <html>''))
   \<and> networkCalls (fst (snd (sendEvent testTracker fallbackHost testEvent emptyWorld))) = 8"
  by code_simp


subsection \<open>Batch limits\<close>

text \<open>
  C3. For a batch that is empty or holds more than 1000 events, \<open>sendBatchEvents\<close>
  is rejected with a \<open>TrackingError\<close> of code \<open>VALIDATION_ERROR\<close>; the world is as
  it was (no call of \<open>fetch\<close> or \<open>https.request\<close> was added) and the action was
  never invoked.
\<close>

theorem sendBatchEvents_rejects_before_network:
  assumes "events = [] \<or> length events > 1000"
  shows "\<exists>message.
           sendBatchEvents t h events w =
             (Inl (Some (TrackingError message (Some ''VALIDATION_ERROR'') None)), w, emptyLog)
         \<and> networkCalls (fst (snd (sendBatchEvents t h events w))) = networkCalls w
         \<and> invocations (snd (snd (sendBatchEvents t h events w))) = 0"
  using assms
  by (auto simp: sendBatchEvents_def createTrackingError_def emptyLog_def)

theorem sendBatchEvents_rejects_before_network_witness:
  "networkCalls (fst (snd (sendBatchEvents testTracker testHost (replicate 1001 testEvent)
      emptyWorld))) = 0
   \<and> invocations (snd (snd (sendBatchEvents testTracker testHost (replicate 1001 testEvent)
      emptyWorld))) = 0
   \<and> networkCalls (fst (snd (sendBatchEvents testTracker testHost [] emptyWorld))) = 0"
  using sendBatchEvents_rejects_before_network
      [of "replicate 1001 testEvent" testTracker testHost emptyWorld]
    sendBatchEvents_rejects_before_network [of "[]" testTracker testHost emptyWorld]
  by (simp add: networkCalls_def emptyWorld_def)

subsection \<open>The field normalizer\<close>

lemma createUserData_external_id:
  "map_of (createUserData env u) ''external_id'' =
     (if truthy_str (externalId (normalizeUserData env u))
      then Some (WString (the (externalId (normalizeUserData env u)))) else None)"
  by (simp add: createUserData_def Let_def map_add_def map_of_hashedKey_other
      map_of_plainKey_other map_of_plainKey_same)

text \<open>
  C4, as amended. The normalizer replaces an external id that is present and not empty
  by its \<open>hashDataSync\<close> digest; an absent or empty one stays as it is. The other
  opaque tokens (browser id \<open>fbp\<close>, click id \<open>fbc\<close>, IP address, user agent) leave
  the normalizer with their original values. \<open>createUserData\<close> copies the normalizer's
  external id to the key \<open>external_id\<close> as it is, without hashing it again.
\<close>

theorem normalizer_hashes_externalId:
  "externalId (normalizeUserData env u) =
      (if truthy_str (externalId u) then Some (hashDataSync env (JStr (the (externalId u))))
       else externalId u)
   \<and> fbp (normalizeUserData env u) = fbp u
   \<and> fbc (normalizeUserData env u) = fbc u
   \<and> clientIpAddress (normalizeUserData env u) = clientIpAddress u
   \<and> clientUserAgent (normalizeUserData env u) = clientUserAgent u
   \<and> map_of (createUserData env u) ''external_id'' =
       (if truthy_str (externalId (normalizeUserData env u))
        then Some (WString (the (externalId (normalizeUserData env u)))) else None)"
  by (simp add: createUserData_external_id) (simp add: normalizeUserData_def hashIfProvided_def)

theorem normalizer_hashes_externalId_witness:
  "externalId (normalizeUserData browserRuntime
      (emptyUserData\<lparr>externalId := Some ''abc'', fbp := Some ''fb.1.2''\<rparr>)) = Some ''17862''
   \<and> fbp (normalizeUserData browserRuntime
      (emptyUserData\<lparr>externalId := Some ''abc'', fbp := Some ''fb.1.2''\<rparr>)) = Some ''fb.1.2''
   \<and> map_of (createUserData browserRuntime
      (emptyUserData\<lparr>externalId := Some ''abc'', fbp := Some ''fb.1.2''\<rparr>)) ''external_id''
       = Some (WString ''17862'')"
proof -
  have h: "hashDataSync browserRuntime (JStr ''abc'') = ''17862''"
    by code_simp
  show ?thesis
    using normalizer_hashes_externalId
      [of browserRuntime "emptyUserData\<lparr>externalId := Some ''abc'', fbp := Some ''fb.1.2''\<rparr>"]
    by (simp add: h emptyUserData_def del: hashDataSync.simps)
qed

text \<open>
  The specification says that the external id leaves the normalizer with its original
  value; \<open>user-1\<close> leaves it as the checksum \<open>31d4d551\<close>.
\<close>

theorem normalizer_externalId_counterexample:
  "externalId (normalizeUserData browserRuntime (emptyUserData\<lparr>externalId := Some ''user-1''\<rparr>))
     = Some ''31d4d551''
   \<and> externalId (normalizeUserData browserRuntime (emptyUserData\<lparr>externalId := Some ''user-1''\<rparr>))
     \<noteq> externalId (emptyUserData\<lparr>externalId := Some ''user-1''\<rparr>)"
  by code_simp

text \<open>
  On Node the digest is SHA-256, whose hexadecimal form has 64 characters: the same
  input is changed there as well.
\<close>

lemma normalizer_externalId_changed_on_node:
  assumes "isNode env" and "nodeCrypto env" and "\<forall>s. length (sha256 env s) = 64"
  shows "externalId (normalizeUserData env (emptyUserData\<lparr>externalId := Some ''user-1''\<rparr>))
     \<noteq> Some ''user-1''"
proof -
  have "length (sha256 env (trim (toLowerCase ''user-1''))) = 64"
    using assms(3) by blast
  then have "sha256 env (trim (toLowerCase ''user-1'')) \<noteq> ''user-1''"
    by auto
  then show ?thesis
    using assms(1,2) by (simp add: normalizeUserData_def hashIfProvided_def Let_def)
qed

subsection \<open>Hashing\<close>

text \<open>
  C5. \<open>hashDataSync\<close> and \<open>hashData\<close> return the empty string for the empty string
  and for every value that is not a string; for a string that is not empty they digest
  its lower-cased, trimmed form, with the digest the host provides; hence two inputs with
  the same lower-cased, trimmed form (in particular the same input twice) have equal
  digests on the same host.
\<close>

theorem hash_normalises_then_digests:
  "hashDataSync env (JStr []) = [] \<and> hashData env (JStr []) = []
   \<and> ((\<forall>s. v \<noteq> JStr s) \<longrightarrow> hashDataSync env v = [] \<and> hashData env v = [])
   \<and> (x \<noteq> [] \<longrightarrow>
        hashDataSync env (JStr x) =
          (if isNode env \<and> nodeCrypto env then sha256 env (trim (toLowerCase x))
           else simpleHash (trim (toLowerCase x)))
      \<and> hashData env (JStr x) =
          (if (isNode env \<and> nodeCrypto env) \<or> subtleCrypto env
           then sha256 env (trim (toLowerCase x))
           else simpleHash (trim (toLowerCase x))))
   \<and> (x \<noteq> [] \<and> y \<noteq> [] \<and> trim (toLowerCase x) = trim (toLowerCase y) \<longrightarrow>
        hashDataSync env (JStr x) = hashDataSync env (JStr y)
      \<and> hashData env (JStr x) = hashData env (JStr y))"
  by (cases v) (auto simp: Let_def)

theorem hash_normalises_then_digests_witness:
  "hashDataSync browserRuntime JNull = []
   \<and> hashDataSync browserRuntime (JStr ''  Test@Example.COM '') =
       hashDataSync browserRuntime (JStr ''test@example.com'')
   \<and> hashData browserRuntime (JStr ''  Test@Example.COM '') =
       hashData browserRuntime (JStr ''test@example.com'')
   \<and> hashDataSync browserRuntime (JStr ''  Test@Example.COM '') =
       simpleHash ''test@example.com''"
proof -
  have n: "trim (toLowerCase ''  Test@Example.COM '') = ''test@example.com''"
    by code_simp
  have m: "trim (toLowerCase ''test@example.com'') = ''test@example.com''"
    by code_simp
  have b: "\<not> isNode browserRuntime" "\<not> subtleCrypto browserRuntime"
    by (simp_all add: browserRuntime_def)
  show ?thesis
    using hash_normalises_then_digests
      [of browserRuntime JNull "''  Test@Example.COM ''" "''test@example.com''"]
    by (auto simp: n m b simp del: hashDataSync.simps hashData.simps)
qed

subsection \<open>The response mapper\<close>

text \<open>
  C6. On every reply that is an object, \<open>transformResponse\<close> returns a response (it
  does not throw); a count that is absent is 0 and absent messages are the empty list.
  For the empty object: no events received, no messages, no processed entries.
\<close>

theorem transformResponse_total_on_records:
  "(\<exists>r. transformResponse (JObj kvs) = Inr r
      \<and> (map_of kvs ''events_received'' = None \<longrightarrow>
           eventsReceived r = JNum 0 \<and> events_received r = JNum 0)
      \<and> (map_of kvs ''messages'' = None \<longrightarrow> messages r = JArr [])
      \<and> (map_of kvs ''num_processed_entries'' = None \<longrightarrow> numProcessedEntries r = JNum 0))
   \<and> transformResponse (JObj []) =
       Inr \<lparr> eventsReceived = JNum 0, events_received = JNum 0, messages = JArr [],
             fbtrace_id = JUndefined, response_id = JUndefined,
             numProcessedEntries = JNum 0 \<rparr>"
  by (simp add: transformResponse_def orElse_def Let_def)

theorem transformResponse_total_on_records_witness:
  "\<exists>r. transformResponse (JObj [(''fbtrace_id'', JStr ''A1b2'')]) = Inr r
      \<and> eventsReceived r = JNum 0 \<and> messages r = JArr [] \<and> numProcessedEntries r = JNum 0"
  using transformResponse_total_on_records [of "[(''fbtrace_id'', JStr ''A1b2'')]"]
  by auto

subsection \<open>Validation of the configuration\<close>

text \<open>
  C7, as amended. A configuration with a valid pixel id whose access token is longer
  than 50 characters (51 or more) passes \<open>validateConfig\<close>: no error is reported,
  in particular no access-token format error.
\<close>

theorem validateConfig_accepts_long_token:
  assumes "pixelId cfg = Some p" and "isValidPixelId p"
    and "accessToken cfg = Some tok" and "length tok > 50"
  shows "isValid (validateConfig cfg) \<and> errors (validateConfig cfg) = []"
proof -
  from assms(2) have "p \<noteq> []"
    by (auto simp: isValidPixelId_def)
  with assms show ?thesis
    by (simp add: validateConfig_def isValidAccessToken_def Let_def)
qed

theorem validateConfig_accepts_long_token_witness:
  "isValid (validateConfig (testConfig\<lparr>accessToken := Some (replicate 51 CHR ''a'')\<rparr>))
   \<and> errors (validateConfig (testConfig\<lparr>accessToken := Some (replicate 51 CHR ''a'')\<rparr>)) = []"
proof -
  have v: "isValidPixelId ''123456789012345''"
    by (simp add: isValidPixelId_def isDigit_def code_unit_def)
  have p: "pixelId (testConfig\<lparr>accessToken := Some (replicate 51 CHR ''a'')\<rparr>)
             = Some ''123456789012345''"
    by (simp add: testConfig_def)
  have l: "length (replicate 51 CHR ''a'') > 50"
    by simp
  show ?thesis
    using validateConfig_accepts_long_token [OF p v _ l]
    by simp
qed

text \<open>
  The specification's minimum length fails: a token of exactly 50 characters,
  with a valid pixel id, is rejected with the access-token format error.
\<close>

theorem validateConfig_token_50_counterexample:
  "length (replicate 50 CHR ''a'') = 50
   \<and> isValidPixelId ''123456789012345''
   \<and> \<not> isValid (validateConfig (testConfig\<lparr>accessToken := Some (replicate 50 CHR ''a'')\<rparr>))
   \<and> errors (validateConfig (testConfig\<lparr>accessToken := Some (replicate 50 CHR ''a'')\<rparr>))
       = [''Invalid access token format'']"
  by (simp add: validateConfig_def testConfig_def isValidPixelId_def isValidAccessToken_def
      isDigit_def code_unit_def Let_def)

text \<open>Every token of exactly 50 characters is rejected, whatever the valid pixel id.\<close>

lemma validateConfig_rejects_token_of_50:
  assumes "pixelId cfg = Some p" and "isValidPixelId p"
    and "accessToken cfg = Some tok" and "length tok = 50"
  shows "\<not> isValid (validateConfig cfg)
    \<and> errors (validateConfig cfg) = [''Invalid access token format'']"
proof -
  from assms(2) have "p \<noteq> []"
    by (auto simp: isValidPixelId_def)
  moreover from assms(4) have "tok \<noteq> []"
    by auto
  ultimately show ?thesis
    using assms by (simp add: validateConfig_def isValidAccessToken_def Let_def)
qed

subsection \<open>Updating the configuration\<close>

text \<open>
  When the merged configuration fails validation, \<open>updateConfig\<close> throws a
  \<open>TrackingError\<close> of code \<open>CONFIG_ERROR\<close>, and the tracker it leaves behind holds
  the merged, invalid configuration: the configuration from before the call is not
  restored. Its base URL has been rebuilt from the merged values when the partial
  configuration supplies a pixel id or an API version that is not empty.
\<close>

lemma updateConfig_replaces_config_before_throwing:
  assumes "\<not> isValid (validateConfig (mergeConfig (config t) newConfig))"
  shows "(\<exists>message.
      fst (updateConfig t newConfig) = Some (TrackingError message (Some ''CONFIG_ERROR'') None))
    \<and> config (snd (updateConfig t newConfig)) = mergeConfig (config t) newConfig
    \<and> (truthy_key (pixelId newConfig) \<or> truthy_key (apiVersion newConfig) \<longrightarrow>
         baseUrl (snd (updateConfig t newConfig)) = eventsUrl (mergeConfig (config t) newConfig))
    \<and> (isValid (validateConfig (config t)) \<longrightarrow> config (snd (updateConfig t newConfig)) \<noteq> config t)"
  using assms
  by (auto simp: updateConfig_def Let_def createTrackingError_def)

lemma updateConfig_invalid_pixelId:
  "fst (updateConfig testTracker (pixelIdUpdate (Some ''12''))) =
     Some (TrackingError ''Invalid configuration update: Invalid Pixel ID format''
             (Some ''CONFIG_ERROR'') None)
   \<and> pixelId (config (snd (updateConfig testTracker (pixelIdUpdate (Some ''12''))))) = Some ''12''
   \<and> baseUrl (snd (updateConfig testTracker (pixelIdUpdate (Some ''12'')))) =
       ''https://graph.facebook.com/v18.0/12/events''"
  by (simp add: updateConfig_def mergeConfig_def testTracker_def testConfig_def
      pixelIdUpdate_def spread_def truthy_key_def validateConfig_def isValidPixelId_def
      isValidAccessToken_def createTrackingError_def eventsUrl_def templateStr_def Let_def)

text \<open>
  C8, at the update \<open>{ pixelId: '' }\<close> of a tracker whose pixel id is
  \<open>123456789012345\<close>. The stored pixel id is replaced by the empty string, the call
  throws the \<open>CONFIG_ERROR\<close>, and the stored configuration is not restored; but the
  base URL has not been rebuilt: it still names the old pixel id, while the merged
  values give another URL. The guard tests whether the new pixel id is truthy, where the
  comment above it says that the URL is updated if the pixel id changed.
\<close>

theorem updateConfig_empty_pixelId_stale_baseUrl:
  "pixelId (config testTracker) = Some ''123456789012345''
   \<and> pixelId (config (snd (updateConfig testTracker (pixelIdUpdate (Some []))))) = Some []
   \<and> fst (updateConfig testTracker (pixelIdUpdate (Some []))) =
       Some (TrackingError ''Invalid configuration update: Pixel ID is required''
               (Some ''CONFIG_ERROR'') None)
   \<and> baseUrl (snd (updateConfig testTracker (pixelIdUpdate (Some [])))) =
       ''https://graph.facebook.com/v18.0/123456789012345/events''
   \<and> eventsUrl (config (snd (updateConfig testTracker (pixelIdUpdate (Some []))))) =
       ''https://graph.facebook.com/v18.0//events''"
  by (simp add: updateConfig_def mergeConfig_def testTracker_def testConfig_def
      pixelIdUpdate_def spread_def truthy_key_def validateConfig_def isValidAccessToken_def
      createTrackingError_def eventsUrl_def templateStr_def Let_def)

text \<open>
  The same with an own key that holds \<open>undefined\<close>, \<open>{ pixelId: undefined }\<close>: the
  stored pixel id is overwritten, the call throws, the base URL is the old one.
\<close>

lemma updateConfig_undefined_pixelId:
  "pixelId (config (snd (updateConfig testTracker (pixelIdUpdate None)))) = None
   \<and> fst (updateConfig testTracker (pixelIdUpdate None)) =
       Some (TrackingError ''Invalid configuration update: Pixel ID is required''
               (Some ''CONFIG_ERROR'') None)
   \<and> baseUrl (snd (updateConfig testTracker (pixelIdUpdate None))) =
       ''https://graph.facebook.com/v18.0/123456789012345/events''
   \<and> eventsUrl (config (snd (updateConfig testTracker (pixelIdUpdate None)))) =
       ''https://graph.facebook.com/v18.0/undefined/events''"
  by (simp add: updateConfig_def mergeConfig_def testTracker_def testConfig_def
      pixelIdUpdate_def spread_def truthy_key_def validateConfig_def isValidAccessToken_def
      createTrackingError_def eventsUrl_def templateStr_def Let_def)

subsection \<open>Validation of the event time\<close>

text \<open>
  C9. For an event with a name and an action source that is absent or valid,
  \<open>validateServerEventData\<close> returns without error when \<open>eventTime\<close> is 0, as it
  does when \<open>eventTime\<close> is absent, although 0 is below the lower bound; a time that
  is not 0 and lies outside the bounds is rejected.
\<close>

theorem validate_skips_zero_event_time:
  assumes "truthy_str (eventName e)"
    and "\<not> truthy_str (actionSource e) \<or> the (actionSource e) \<in> set validActionSources"
  shows "validateServerEventData h (e\<lparr>eventTime := Some 0\<rparr>) = None
     \<and> validateServerEventData h (e\<lparr>eventTime := None\<rparr>) = None
     \<and> (x \<noteq> 0 \<and> (x < 1000000000 \<or> x > of_int (nowMs h) / 1000 + 3600) \<longrightarrow>
          validateServerEventData h (e\<lparr>eventTime := Some x\<rparr>) =
            Some (TrackingError
                    ''Event time must be a valid Unix timestamp within reasonable bounds''
                    (Some ''VALIDATION_ERROR'') None))"
  using assms
  by (auto simp: validateServerEventData_def createTrackingError_def)

theorem validate_skips_zero_event_time_witness:
  "validateServerEventData testHost (testEvent\<lparr>eventTime := Some 0\<rparr>) = None
   \<and> validateServerEventData testHost (testEvent\<lparr>eventTime := Some 500000000\<rparr>) =
       Some (TrackingError
               ''Event time must be a valid Unix timestamp within reasonable bounds''
               (Some ''VALIDATION_ERROR'') None)"
proof -
  have n: "truthy_str (eventName testEvent)"
    by (simp add: testEvent_def)
  have a: "\<not> truthy_str (actionSource testEvent)
           \<or> the (actionSource testEvent) \<in> set validActionSources"
    by (simp add: testEvent_def)
  show ?thesis
    using validate_skips_zero_event_time [OF n a, of testHost 500000000]
    by simp
qed

subsection \<open>Quantities of content items\<close>

lemma map_of_mergeCustomProperties_reserved:
  "k \<in> set reservedFields \<Longrightarrow> map_of (mergeCustomProperties props obj) k = map_of obj k"
proof (induction props arbitrary: obj)
  case Nil
  then show ?case by simp
next
  case (Cons p props)
  obtain key v where p: "p = (key, v)" by (cases p)
  show ?case
  proof (cases "key \<in> set reservedFields")
    case True
    then show ?thesis using Cons by (simp add: p)
  next
    case False
    with Cons.prems have "k \<noteq> key" by auto
    then show ?thesis using Cons False by (simp add: p map_of_setProp_other)
  qed
qed

lemma createCustomData_contents:
  "map_of (createCustomData cd) ''contents'' =
     (case contents cd of None \<Rightarrow> None | Some cs \<Rightarrow> Some (JArr (map wireContent cs)))"
proof -
  have r: "''contents'' \<in> set reservedFields"
    by (simp add: reservedFields_def)
  show ?thesis
    by (simp add: createCustomData_def Let_def map_of_mergeCustomProperties_reserved [OF r]
        map_add_def map_of_strProp_other split: option.splits)
qed

lemma wireContent_quantity:
  "getProp (wireContent c) ''quantity'' =
     Inr (JNum (case quantity c of None \<Rightarrow> 1 | Some q \<Rightarrow> if q \<noteq> 0 then q else 1))"
  by (cases "quantity c") (simp_all add: wireContent_def)

text \<open>
  C10. The \<open>contents\<close> key of the wire custom data holds one object per input item
  (custom properties cannot replace it, the key is reserved), and the quantity of each
  is the input quantity when that is present and not 0, and 1 otherwise; so a quantity
  of 0 is never sent.
\<close>

theorem wire_quantity_defaults_to_one:
  assumes "contents cd = Some cs"
  shows "map_of (createCustomData cd) ''contents'' = Some (JArr (map wireContent cs))
     \<and> (\<forall>c \<in> set cs.
          getProp (wireContent c) ''quantity'' =
            Inr (JNum (case quantity c of None \<Rightarrow> 1 | Some q \<Rightarrow> if q \<noteq> 0 then q else 1))
        \<and> getProp (wireContent c) ''quantity'' \<noteq> Inr (JNum 0))"
proof -
  have "getProp (wireContent c) ''quantity'' \<noteq> Inr (JNum 0)" for c
    by (simp add: wireContent_quantity split: option.splits)
  then show ?thesis
    using assms by (simp add: createCustomData_contents wireContent_quantity)
qed

theorem wire_quantity_defaults_to_one_witness:
  "getProp (wireContent \<lparr> id' = ''p0'', quantity = Some 0, itemPrice = None, title = None,
       category = None, brand = None \<rparr>) ''quantity'' = Inr (JNum 1)
   \<and> getProp (wireContent \<lparr> id' = ''p1'', quantity = Some 2, itemPrice = Some (4999 / 100),
       title = None, category = None, brand = None \<rparr>) ''quantity'' = Inr (JNum 2)
   \<and> map_of (createCustomData (emptyCustomData\<lparr>contents := Some
       [\<lparr> id' = ''p0'', quantity = Some 0, itemPrice = None, title = None,
          category = None, brand = None \<rparr>,
        \<lparr> id' = ''p1'', quantity = Some 2, itemPrice = Some (4999 / 100),
          title = None, category = None, brand = None \<rparr>]\<rparr>)) ''contents'' =
     Some (JArr
       [JObj [(''id'', JStr ''p0''), (''quantity'', JNum 1), (''item_price'', JUndefined)],
        JObj [(''id'', JStr ''p1''), (''quantity'', JNum 2), (''item_price'', JNum (4999 / 100))]])"
proof -
  have c: "contents (emptyCustomData\<lparr>contents := Some
       [\<lparr> id' = ''p0'', quantity = Some 0, itemPrice = None, title = None,
          category = None, brand = None \<rparr>,
        \<lparr> id' = ''p1'', quantity = Some 2, itemPrice = Some (4999 / 100),
          title = None, category = None, brand = None \<rparr>]\<rparr>) = Some
       [\<lparr> id' = ''p0'', quantity = Some 0, itemPrice = None, title = None,
          category = None, brand = None \<rparr>,
        \<lparr> id' = ''p1'', quantity = Some 2, itemPrice = Some (4999 / 100),
          title = None, category = None, brand = None \<rparr>]"
    by simp
  show ?thesis
    using wire_quantity_defaults_to_one [OF c]
    by (simp add: wireContent_def strProp_def numOrUndefined_def)
qed

end
